theory Spec2Isabelle
  imports Main
begin

section \<open>Strings of the platform\<close>

text \<open>
  A JavaScript string is a sequence of UTF-16 code units. It is modelled as the list of
  its code units, so that \<open>includes\<close>, \<open>startsWith\<close>, \<open>split\<close> and \<open>slice\<close> see
  what the platform sees, also on the Chinese messages of \<open>api.js\<close>. \<open>ascii\<close> turns a
  literal of the theory into such a string.
\<close>

type_synonym jsstring = "nat list"

definition ascii :: "string \<Rightarrow> jsstring" where
  "ascii s = map of_char s"

section \<open>CacheManager (api.js)\<close>

text \<open>
  \<open>cache: new Map()\<close> from keys to \<open>{ data, expireTime }\<close>. \<open>Date.now()\<close> is
  an argument of the operations that read the clock; times are milliseconds.
\<close>

record 'v cache_item =
  data :: 'v
  expireTime :: int

type_synonym 'v cache = "jsstring \<rightharpoonup> 'v cache_item"

definition defaultTTL :: int where
  "defaultTTL = 5 * 60 * 1000"

text \<open>\<open>set(key, data, ttl)\<close>: \<open>expireTime = Date.now() + ttl\<close>.\<close>

definition CacheManager_set :: "int \<Rightarrow> jsstring \<Rightarrow> 'v \<Rightarrow> int \<Rightarrow> 'v cache \<Rightarrow> 'v cache" where
  "CacheManager_set now key d ttl c = c(key \<mapsto> \<lparr>data = d, expireTime = now + ttl\<rparr>)"

text \<open>
  \<open>get(key)\<close>: \<open>null\<close> (here \<open>None\<close>) when the key is missing; when
  \<open>Date.now() > item.expireTime\<close> the entry is deleted and \<open>null\<close> returned; otherwise
  \<open>item.data\<close>. The result is the returned value and the map afterwards.
\<close>

definition CacheManager_get :: "int \<Rightarrow> jsstring \<Rightarrow> 'v cache \<Rightarrow> 'v option \<times> 'v cache" where
  "CacheManager_get now key c =
     (case c key of
        None \<Rightarrow> (None, c)
      | Some item \<Rightarrow>
          if now > expireTime item then (None, c(key := None))
          else (Some (data item), c))"

definition CacheManager_delete :: "jsstring \<Rightarrow> 'v cache \<Rightarrow> 'v cache" where
  "CacheManager_delete key c = c(key := None)"

definition CacheManager_clear :: "'v cache \<Rightarrow> 'v cache" where
  "CacheManager_clear c = Map.empty"

section \<open>String operations of the platform\<close>

text \<open>\<open>s.startsWith(p)\<close> and \<open>s.includes(sub)\<close> on code units.\<close>

fun startsWith :: "'a list \<Rightarrow> 'a list \<Rightarrow> bool" where
  "startsWith s [] = True"
| "startsWith [] (p # ps) = False"
| "startsWith (c # cs) (p # ps) = (c = p \<and> startsWith cs ps)"

fun str_includes :: "'a list \<Rightarrow> 'a list \<Rightarrow> bool" where
  "str_includes [] sub = (sub = [])"
| "str_includes (c # cs) sub = (startsWith (c # cs) sub \<or> str_includes cs sub)"

text \<open>The decimal digits of a number, as a template literal prints \<open>response.status\<close>.\<close>

fun digits :: "nat \<Rightarrow> jsstring" where
  "digits n = (if n < 10 then [48 + n] else digits (n div 10) @ [48 + n mod 10])"

section \<open>ApiClient.request (api.js): the errors it throws\<close>

record js_error =
  name :: jsstring
  message :: jsstring

text \<open>\<open>new Error(msg)\<close>.\<close>

definition Error :: "jsstring \<Rightarrow> js_error" where
  "Error msg = \<lparr>name = ascii ''Error'', message = msg\<rparr>"

text \<open>
  What \<open>fetch\<close> gives: a rejection (an \<open>AbortError\<close> when the timer fired
  \<open>controller.abort()\<close>, a \<open>TypeError\<close> with a message of the browser when the
  connection failed), or a response with its status and status text. For \<open>request\<close>
  the model keeps, besides, what \<open>errorData.message\<close> gives, and what reading the body
  gives on the success path (\<open>response.json()\<close> or \<open>response.text()\<close>, which may
  throw).

  \<open>errorData\<close> is \<open>await response.json().catch(() => ({}))\<close>. When the body is the
  JSON text \<open>null\<close>, \<open>errorData\<close> is \<open>null\<close> and reading \<open>errorData.message\<close>
  throws a \<open>TypeError\<close> of the platform (\<open>NullData\<close>, with that error). Otherwise
  \<open>errorData.message\<close> is \<open>undefined\<close> or another falsy value (\<open>NoMessage\<close>; the
  empty object of the \<open>catch\<close> is such a case), or a truthy value, which \<open>new Error\<close>
  turns into the message text (\<open>Message\<close>, with that text).
\<close>

record response =
  status :: nat
  statusText :: jsstring

datatype error_data = NullData js_error | NoMessage | Message jsstring

record 'a api_response = response +
  errorData :: error_data
  payload :: "js_error + 'a"

definition ok :: "'x response_scheme \<Rightarrow> bool" where
  "ok r = (200 \<le> status r \<and> status r \<le> 299)"

datatype 'r fetch_result = Rejected js_error | Resolved 'r

text \<open>
  The \<open>catch\<close> block of \<open>request\<close>: an error named \<open>AbortError\<close> is replaced by
  \<open>new Error('\<dots>')\<close> whose message is the four code units U+8BF7 U+6C42 U+8D85 U+65F6
  (the Chinese for "request timed out"); any other error is thrown again.
\<close>

definition request_timeout_message :: jsstring where
  "request_timeout_message = [0x8BF7, 0x6C42, 0x8D85, 0x65F6]"

definition request_catch :: "js_error \<Rightarrow> js_error" where
  "request_catch error =
     (if name error = ascii ''AbortError'' then Error request_timeout_message else error)"

text \<open>
  \<open>request\<close>: a response that is not ok throws
  \<open>new Error(errorData.message || `HTTP ${status}: ${statusText}`)\<close>, or the
  \<open>TypeError\<close> of reading \<open>errorData.message\<close>; every error passes through the
  \<open>catch\<close> block.
\<close>

definition request :: "'a api_response fetch_result \<Rightarrow> js_error + 'a" where
  "request r =
     (case r of
        Rejected error \<Rightarrow> Inl (request_catch error)
      | Resolved resp \<Rightarrow>
          if \<not> ok resp then
            (case errorData resp of
               NullData error \<Rightarrow> Inl (request_catch error)
             | NoMessage \<Rightarrow>
                 Inl (request_catch (Error
                   (ascii ''HTTP '' @ digits (status resp) @ ascii '': '' @ statusText resp)))
             | Message m \<Rightarrow> Inl (request_catch (Error m)))
          else (case payload resp of
                  Inl error \<Rightarrow> Inl (request_catch error)
                | Inr v \<Rightarrow> Inr v))"

section \<open>RequestRetrier (api.js)\<close>

text \<open>
  \<open>shouldRetry(error)\<close>: the message contains U+7F51 U+7EDC (the Chinese for
  "network"), or \<open>timeout\<close>, or one of \<open>500\<close>, \<open>502\<close>, \<open>503\<close>, \<open>504\<close>.
\<close>

definition shouldRetry :: "js_error \<Rightarrow> bool" where
  "shouldRetry error =
     (str_includes (message error) [0x7F51, 0x7EDC] \<or>
      str_includes (message error) (ascii ''timeout'') \<or>
      str_includes (message error) (ascii ''500'') \<or>
      str_includes (message error) (ascii ''502'') \<or>
      str_includes (message error) (ascii ''503'') \<or>
      str_includes (message error) (ascii ''504''))"

record RequestRetrier =
  maxRetries :: int
  delay :: int

text \<open>\<open>const retrier = new RequestRetrier()\<close>, with the constructor's defaults.\<close>

definition retrier :: RequestRetrier where
  "retrier = \<lparr>maxRetries = 3, delay = 1000\<rparr>"

text \<open>
  What one call of \<open>execute\<close> did: the value returned or the error thrown
  (\<open>lastError\<close>, which is \<open>undefined\<close>, here \<open>None\<close>, when the loop body never
  ran), how often \<open>requestFn\<close> was called, and the arguments of \<open>wait\<close> in order.
\<close>

record 'a execution =
  outcome :: "js_error option + 'a"
  tries :: nat
  waits :: "int list"

text \<open>
  The loop \<open>for (let i = 0; i <= this.maxRetries; i++)\<close> of \<open>execute\<close>, entered at
  \<open>i\<close>. \<open>requestFn i\<close> is what the call of \<open>requestFn\<close> in iteration \<open>i\<close> gives:
  \<open>Inl\<close> the error it throws, \<open>Inr\<close> the value it returns.
\<close>

function execute_from ::
  "RequestRetrier \<Rightarrow> (nat \<Rightarrow> js_error + 'a) \<Rightarrow> nat \<Rightarrow> js_error option \<Rightarrow> int list
     \<Rightarrow> 'a execution"
where
  "execute_from r requestFn i lastError ws =
     (if int i \<le> maxRetries r then
        (case requestFn i of
           Inr v \<Rightarrow> \<lparr>outcome = Inr v, tries = Suc i, waits = ws\<rparr>
         | Inl error \<Rightarrow>
             if int i = maxRetries r then
               \<lparr>outcome = Inl (Some error), tries = Suc i, waits = ws\<rparr>
             else if shouldRetry error then
               execute_from r requestFn (Suc i) (Some error) (ws @ [delay r * 2 ^ i])
             else \<lparr>outcome = Inl (Some error), tries = Suc i, waits = ws\<rparr>)
      else \<lparr>outcome = Inl lastError, tries = i, waits = ws\<rparr>)"
  by pat_completeness auto
termination
  by (relation "measure (\<lambda>(r, requestFn, i, lastError, ws). nat (maxRetries r + 1 - int i))")
     auto

declare execute_from.simps [simp del]

definition execute :: "RequestRetrier \<Rightarrow> (nat \<Rightarrow> js_error + 'a) \<Rightarrow> 'a execution" where
  "execute r requestFn = execute_from r requestFn 0 None []"

section \<open>SearchAPI.searchStream (api.js)\<close>

text \<open>
  \<open>s.split(sep)\<close> for a separator of one code unit: the pieces between the separators,
  the piece after the last one included (\<open>''\<close> when the text ends with the separator).
\<close>

fun str_split :: "'a \<Rightarrow> 'a list \<Rightarrow> 'a list list" where
  "str_split sep [] = [[]]"
| "str_split sep (c # cs) =
     (if c = sep then [] # str_split sep cs
      else (case str_split sep cs of [] \<Rightarrow> [[c]] | l # ls \<Rightarrow> (c # l) # ls))"

text \<open>
  The body of \<open>for (const line of lines)\<close>: a line that starts with \<open>data: \<close> is cut
  after its sixth code unit and handed to \<open>JSON.parse\<close>; the callback gets the parsed
  value; a line that does not parse is logged and skipped. \<open>parse\<close> stands for
  \<open>JSON.parse\<close>, \<open>None\<close> for its \<open>SyntaxError\<close>. The callback is a function on a
  state \<open>'s\<close>.
\<close>

definition searchStream_line ::
  "(jsstring \<Rightarrow> 'd option) \<Rightarrow> ('d \<Rightarrow> 's \<Rightarrow> 's) \<Rightarrow> jsstring \<Rightarrow> 's \<Rightarrow> 's" where
  "searchStream_line parse onMessage line st =
     (if startsWith line (ascii ''data: '') then
        (case parse (drop 6 line) of Some d \<Rightarrow> onMessage d st | None \<Rightarrow> st)
      else st)"

fun searchStream_lines ::
  "(jsstring \<Rightarrow> 'd option) \<Rightarrow> ('d \<Rightarrow> 's \<Rightarrow> 's) \<Rightarrow> jsstring list \<Rightarrow> 's \<Rightarrow> 's" where
  "searchStream_lines parse onMessage [] st = st"
| "searchStream_lines parse onMessage (line # lines) st =
     searchStream_lines parse onMessage lines (searchStream_line parse onMessage line st)"

text \<open>
  The loop \<open>while (true) { read; if (done) break; \<dots> }\<close> over the chunks the reader
  gives, each already decoded to text: \<open>chunk.split('\n')\<close>, then the loop over the
  lines. Nothing is kept from one chunk to the next.
\<close>

fun searchStream_read ::
  "(jsstring \<Rightarrow> 'd option) \<Rightarrow> ('d \<Rightarrow> 's \<Rightarrow> 's) \<Rightarrow> jsstring list \<Rightarrow> 's \<Rightarrow> 's" where
  "searchStream_read parse onMessage [] st = st"
| "searchStream_read parse onMessage (chunk # chunks) st =
     searchStream_read parse onMessage chunks
       (searchStream_lines parse onMessage (str_split 10 chunk) st)"

text \<open>
  The response of the stream request: its chunks in order, and the error with which a
  \<open>read\<close> rejects after them, if one does.
\<close>

record stream_response = response +
  body_chunks :: "jsstring list"
  read_error :: "js_error option"

text \<open>
  \<open>searchStream\<close>: the error it throws, if any, and the state the callback leaves.
\<close>

definition searchStream ::
  "(jsstring \<Rightarrow> 'd option) \<Rightarrow> ('d \<Rightarrow> 's \<Rightarrow> 's) \<Rightarrow> stream_response fetch_result \<Rightarrow> 's
     \<Rightarrow> js_error option \<times> 's" where
  "searchStream parse onMessage f st =
     (case f of
        Rejected error \<Rightarrow> (Some error, st)
      | Resolved resp \<Rightarrow>
          if \<not> ok resp then
            (Some (Error (ascii ''HTTP '' @ digits (status resp) @ ascii '': '' @ statusText resp)),
             st)
          else (read_error resp, searchStream_read parse onMessage (body_chunks resp) st))"

text \<open>
  What a subscriber receives from a stream that answers 200 and ends normally: the
  arguments of the callback, in order.
\<close>

definition received :: "(jsstring \<Rightarrow> 'd option) \<Rightarrow> jsstring list \<Rightarrow> 'd list" where
  "received parse cs =
     snd (searchStream parse (\<lambda>d log. log @ [d])
            (Resolved \<lparr>status = 200, statusText = ascii ''OK'', body_chunks = cs, read_error = None\<rparr>)
            [])"

text \<open>The events of one complete line: at most one.\<close>

definition line_events :: "(jsstring \<Rightarrow> 'd option) \<Rightarrow> jsstring \<Rightarrow> 'd list" where
  "line_events parse line =
     (if startsWith line (ascii ''data: '') then
        (case parse (drop 6 line) of Some d \<Rightarrow> [d] | None \<Rightarrow> [])
      else [])"

text \<open>
  The consumer the specification describes, for comparison with \<open>searchStream\<close>: it
  appends each chunk to a carry-over buffer, splits on newline, processes the complete
  lines and keeps the trailing partial line in the buffer for the next chunk.
\<close>

fun spec_carry_over_consumer ::
  "(jsstring \<Rightarrow> 'd option) \<Rightarrow> jsstring \<Rightarrow> jsstring list \<Rightarrow> 'd list" where
  "spec_carry_over_consumer parse buffer [] = []"
| "spec_carry_over_consumer parse buffer (chunk # chunks) =
     concat (map (line_events parse) (butlast (str_split 10 (buffer @ chunk))))
       @ spec_carry_over_consumer parse (last (str_split 10 (buffer @ chunk))) chunks"

subsection \<open>JSON.parse on flat objects\<close>

text \<open>
  The statements about \<open>searchStream\<close> hold for any \<open>parse\<close>. The concrete examples
  need \<open>JSON.parse\<close> on the texts of stream events, and \<open>JSON_parse_flat\<close> is
  \<open>JSON.parse\<close> on one fragment of JSON: an object whose members are strings without
  escapes, with white space allowed between the tokens. A parsed object is the list of its
  members in the order of the text. On a text that is no JSON at all (a string or an
  object cut short, as a chunk boundary leaves it) the result is \<open>None\<close>, the
  \<open>SyntaxError\<close>; texts of JSON outside the fragment (numbers, arrays, nested objects,
  escapes) are not covered and give \<open>None\<close> here too.
\<close>

type_synonym js_object = "(jsstring \<times> jsstring) list"

datatype scan_state =
  Start | KeyOrClose | Key | InKey | Colon | Value | InValue | CommaOrClose | End

definition whitespace :: "nat \<Rightarrow> bool" where
  "whitespace c = (c = 32 \<or> c = 9 \<or> c = 10 \<or> c = 13)"

fun JSON_scan ::
  "scan_state \<Rightarrow> jsstring \<Rightarrow> jsstring \<Rightarrow> js_object \<Rightarrow> jsstring \<Rightarrow> js_object option" where
  "JSON_scan q k acc obj [] = (if q = End then Some obj else None)"
| "JSON_scan q k acc obj (c # cs) =
     (case q of
        Start \<Rightarrow>
          if whitespace c then JSON_scan Start k acc obj cs
          else if c = 123 then JSON_scan KeyOrClose k acc obj cs else None
      | KeyOrClose \<Rightarrow>
          if whitespace c then JSON_scan KeyOrClose k acc obj cs
          else if c = 34 then JSON_scan InKey k [] obj cs
          else if c = 125 then JSON_scan End k acc obj cs else None
      | Key \<Rightarrow>
          if whitespace c then JSON_scan Key k acc obj cs
          else if c = 34 then JSON_scan InKey k [] obj cs else None
      | InKey \<Rightarrow>
          if c = 34 then JSON_scan Colon acc [] obj cs
          else if c = 92 \<or> c < 32 then None
          else JSON_scan InKey k (acc @ [c]) obj cs
      | Colon \<Rightarrow>
          if whitespace c then JSON_scan Colon k acc obj cs
          else if c = 58 then JSON_scan Value k acc obj cs else None
      | Value \<Rightarrow>
          if whitespace c then JSON_scan Value k acc obj cs
          else if c = 34 then JSON_scan InValue k [] obj cs else None
      | InValue \<Rightarrow>
          if c = 34 then JSON_scan CommaOrClose k [] (obj @ [(k, acc)]) cs
          else if c = 92 \<or> c < 32 then None
          else JSON_scan InValue k (acc @ [c]) obj cs
      | CommaOrClose \<Rightarrow>
          if whitespace c then JSON_scan CommaOrClose k acc obj cs
          else if c = 44 then JSON_scan Key k acc obj cs
          else if c = 125 then JSON_scan End k acc obj cs else None
      | End \<Rightarrow> if whitespace c then JSON_scan End k acc obj cs else None)"

definition JSON_parse_flat :: "jsstring \<Rightarrow> js_object option" where
  "JSON_parse_flat text = JSON_scan Start [] [] [] text"

text \<open>The object with the given members, for the examples.\<close>

definition obj :: "(string \<times> string) list \<Rightarrow> js_object" where
  "obj ms = map (\<lambda>(k, v). (ascii k, ascii v)) ms"

text \<open>
  \<open>d.k\<close>: the member of that name, the last one when the text had several, \<open>None\<close>
  for \<open>undefined\<close>.
\<close>

definition field :: "js_object \<Rightarrow> string \<Rightarrow> jsstring option" where
  "field d k = map_of (rev d) (ascii k)"

section \<open>Replies of the backend\<close>

text \<open>
  A reply of the backend as the page reads it: \<open>response.success\<close>,
  \<open>response.message\<close>, and of \<open>response.data\<close> the members the operation at hand
  looks at.
\<close>

record reply =
  success :: bool
  reply_message :: jsstring

section \<open>ChatManager.sendMessage (the chat module)\<close>

text \<open>
  The locals \<open>assistantMessage\<close> and \<open>sources\<close> of one call of \<open>sendMessage\<close>;
  \<open>sources\<close> starts as the empty array and is replaced by \<open>data.sources\<close>.
\<close>

datatype sources_value = EmptyArray | Member "jsstring option"

record answer =
  assistantMessage :: jsstring
  sources :: sources_value

definition new_answer :: answer where
  "new_answer = \<lparr>assistantMessage = [], sources = EmptyArray\<rparr>"

text \<open>
  The calls that change the page, kept as a log. The status texts are the literals of
  the source, named here by what they say; \<open>Progress\<close> carries \<open>data.message\<close>.
\<close>

datatype chat_status =
    Thinking | Retrieving | Progress "jsstring option" | Ready | ErrorOccurred | SendFailed
  | LoadingHistory

datatype ui_action =
    ClearInput
  | AddUserMessage jsstring
  | ShowTypingIndicator
  | HideTypingIndicator
  | UpdateChatStatus chat_status
  | UpdateStreamingMessage jsstring
  | FinalizeStreamingMessage jsstring sources_value
  | ShowErrorMessage "jsstring option"

text \<open>
  The calls of \<open>Utils.Notification\<close>: the warning of \<open>sendMessage\<close> ("please wait"),
  and the success and the error of \<open>createNewSession\<close>, the error with
  \<open>error.message\<close>.
\<close>

datatype chat_notification = PleaseWait | SessionCreated | SessionCreateFailed jsstring

record chat =
  isStreaming :: bool
  currentSessionId :: "nat option"
  ui :: "ui_action list"
  chat_notifications :: "chat_notification list"

definition call_ui :: "ui_action list \<Rightarrow> chat \<Rightarrow> chat" where
  "call_ui acts c = c\<lparr>ui := ui c @ acts\<rparr>"

text \<open>The constructor: \<open>currentSessionId = null\<close>, \<open>isStreaming = false\<close>.\<close>

definition ChatManager_new :: chat where
  "ChatManager_new =
     \<lparr>isStreaming = False, currentSessionId = None, ui = [], chat_notifications = []\<rparr>"

text \<open>\<open>!this.currentSessionId\<close>: it is \<open>null\<close>, or the number 0.\<close>

definition no_session :: "chat \<Rightarrow> bool" where
  "no_session c = (currentSessionId c = None \<or> currentSessionId c = Some 0)"

text \<open>
  \<open>switchSession(sessionId)\<close> up to its first \<open>await\<close>: nothing for the current
  session; else the session becomes the current one and \<open>loadChatHistory\<close> sets the
  status and asks for the history. What \<open>loadChatHistory\<close> does when the history
  arrives (it renders the messages and sets the status) is left out; it touches neither
  \<open>isStreaming\<close> nor \<open>currentSessionId\<close>.
\<close>

definition switchSession :: "nat \<Rightarrow> chat \<Rightarrow> chat" where
  "switchSession sessionId c =
     (if currentSessionId c = Some sessionId then c
      else if sessionId = 0 then c\<lparr>currentSessionId := Some sessionId\<rparr>
      else call_ui [UpdateChatStatus LoadingHistory] (c\<lparr>currentSessionId := Some sessionId\<rparr>))"

text \<open>
  \<open>createNewSession()\<close> from the moment \<open>await API.SearchAPI.createSession\<close> settles
  with \<open>result\<close>: on success \<open>switchSession(response.data.session_id)\<close> and the
  notification; a reply without success is thrown as \<open>new Error(response.message)\<close>
  and reported by the \<open>catch\<close> block like any error.
\<close>

record session_reply = reply +
  session_id :: nat

definition createNewSession :: "js_error + session_reply \<Rightarrow> chat \<Rightarrow> chat" where
  "createNewSession result c =
     (case result of
        Inl error \<Rightarrow>
          c\<lparr>chat_notifications := chat_notifications c @ [SessionCreateFailed (message error)]\<rparr>
      | Inr response \<Rightarrow>
          if success response then
            (switchSession (session_id response) c)
              \<lparr>chat_notifications := chat_notifications c @ [SessionCreated]\<rparr>
          else
            c\<lparr>chat_notifications :=
                 chat_notifications c @ [SessionCreateFailed (reply_message response)]\<rparr>)"

text \<open>\<open>assistantMessage += v\<close> for a member that is a string, or \<open>undefined\<close>.\<close>

definition to_string :: "jsstring option \<Rightarrow> jsstring" where
  "to_string v = (case v of Some s \<Rightarrow> s | None \<Rightarrow> ascii ''undefined'')"

text \<open>The callback that \<open>sendMessage\<close> passes to \<open>searchStream\<close>: \<open>switch (data.type)\<close>.\<close>

definition onMessage :: "js_object \<Rightarrow> answer \<times> chat \<Rightarrow> answer \<times> chat" where
  "onMessage d s =
     (case s of (a, c) \<Rightarrow>
        if field d ''type'' = Some (ascii ''start'') then
          (a, call_ui [UpdateChatStatus Retrieving] c)
        else if field d ''type'' = Some (ascii ''progress'') then
          (a, call_ui [UpdateChatStatus (Progress (field d ''message''))] c)
        else if field d ''type'' = Some (ascii ''content'') then
          (a\<lparr>assistantMessage := assistantMessage a @ to_string (field d ''content'')\<rparr>,
           call_ui [UpdateStreamingMessage (assistantMessage a @ to_string (field d ''content''))] c)
        else if field d ''type'' = Some (ascii ''sources'') then
          (a\<lparr>sources := Member (field d ''sources'')\<rparr>, c)
        else if field d ''type'' = Some (ascii ''done'') then
          (a, call_ui [HideTypingIndicator,
                       FinalizeStreamingMessage (assistantMessage a) (sources a),
                       UpdateChatStatus Ready] c)
        else if field d ''type'' = Some (ascii ''error'') then
          (a, call_ui [HideTypingIndicator, ShowErrorMessage (field d ''message''),
                       UpdateChatStatus ErrorOccurred] c)
        else (a, c))"

text \<open>The callback applied to the events it receives, in order.\<close>

fun dispatch :: "js_object list \<Rightarrow> answer \<times> chat \<Rightarrow> answer \<times> chat" where
  "dispatch [] s = s"
| "dispatch (d # ds) s = dispatch ds (onMessage d s)"

text \<open>
  \<open>sendMessage\<close> runs in pieces, between which other handlers of the page may run: up to
  the first \<open>await\<close>, then after \<open>createNewSession\<close>, then when the stream call
  settles. \<open>sent\<close> says where a piece stopped.
\<close>

datatype sent = Returned | Busy | AwaitingSession jsstring | Streaming jsstring

text \<open>
  From clearing the input to \<open>this.isStreaming = true\<close>; the call of
  \<open>API.SearchAPI.searchStream\<close> follows, with a new \<open>answer\<close>.
\<close>

definition sendMessage_open :: "jsstring \<Rightarrow> chat \<Rightarrow> sent \<times> chat" where
  "sendMessage_open query c =
     (Streaming query,
      (call_ui [ClearInput, AddUserMessage query, ShowTypingIndicator, UpdateChatStatus Thinking] c)
        \<lparr>isStreaming := True\<rparr>)"

text \<open>
  The entry of \<open>sendMessage\<close>. \<open>chatInput\<close> is \<open>None\<close> when the page has no
  \<open>#chat-input\<close>, else its trimmed value.
\<close>

definition sendMessage :: "jsstring option \<Rightarrow> chat \<Rightarrow> sent \<times> chat" where
  "sendMessage chatInput c =
     (case chatInput of
        None \<Rightarrow> (Returned, c)
      | Some query \<Rightarrow>
          if query = [] then (Returned, c)
          else if isStreaming c then
            (Busy, c\<lparr>chat_notifications := chat_notifications c @ [PleaseWait]\<rparr>)
          else if no_session c then (AwaitingSession query, c)
          else sendMessage_open query c)"

text \<open>
  After \<open>await this.createNewSession()\<close>: only the session is looked at, the flag
  \<open>isStreaming\<close> is not read again.
\<close>

definition sendMessage_resume :: "jsstring \<Rightarrow> chat \<Rightarrow> sent \<times> chat" where
  "sendMessage_resume query c =
     (if no_session c then (Returned, c) else sendMessage_open query c)"

text \<open>When the stream call settles: the \<open>catch\<close> block if it threw, then \<open>finally\<close>.\<close>

definition sendMessage_settle :: "js_error option \<Rightarrow> chat \<Rightarrow> chat" where
  "sendMessage_settle thrown c =
     (case thrown of
        None \<Rightarrow> c
      | Some error \<Rightarrow>
          call_ui [HideTypingIndicator, ShowErrorMessage (Some (message error)),
                   UpdateChatStatus SendFailed] c)
       \<lparr>isStreaming := False\<rparr>"

text \<open>
  For the statements: the content events of a sequence, the fragment each one appends,
  and the arguments of \<open>updateStreamingMessage\<close> in a log.
\<close>

definition is_content :: "js_object \<Rightarrow> bool" where
  "is_content d = (field d ''type'' = Some (ascii ''content''))"

definition fragments :: "js_object list \<Rightarrow> jsstring list" where
  "fragments ds = map (\<lambda>d. to_string (field d ''content'')) (filter is_content ds)"

fun updates :: "ui_action list \<Rightarrow> jsstring list" where
  "updates [] = []"
| "updates (UpdateStreamingMessage m # acts) = m # updates acts"
| "updates (act # acts) = updates acts"

section \<open>FileManager (the file management module)\<close>

text \<open>The replies the FileManager reads, each with the members of \<open>response.data\<close> it uses.\<close>

record status_reply = reply +
  process_status :: jsstring

record batch_reply = reply +
  success_count :: nat
  total_count :: nat

record upload_reply = reply +
  file_id :: nat

text \<open>
  The calls of \<open>Utils.Notification\<close> made by the FileManager, named by what they say;
  a failure carries \<open>error.message\<close>.
\<close>

datatype file_notification =
    ProcessingCompleted
  | ProcessingFailed
  | DeleteSucceeded
  | DeleteFailed jsstring
  | NoValidFiles
  | BatchDeleteCompleted nat nat
  | BatchDeleteFailed jsstring
  | RenameSucceeded
  | RenameFailed jsstring
  | UploadSucceeded
  | UploadFailed jsstring

subsection \<open>monitorFileProcessing\<close>

text \<open>
  What a run of the poller did: how often \<open>checkStatus\<close> ran (each run makes one call
  of \<open>API.FileAPI.getFileStatus\<close>), the delays passed to \<open>setTimeout\<close> in order,
  whether a timer is still outstanding, the notifications, and the calls of
  \<open>refreshFileList\<close>.
\<close>

record monitor =
  checks :: nat
  timers :: "nat list"
  pending :: bool
  notified :: "file_notification list"
  refreshes :: nat

text \<open>
  \<open>checkStatus\<close>, run when its timer fires. The list holds what the calls of
  \<open>getFileStatus\<close> give, one element per call, in order: \<open>Inl\<close> the error thrown,
  \<open>Inr\<close> the reply. When the list is used up the last timer stays outstanding.
\<close>

fun checkStatus :: "(js_error + status_reply) list \<Rightarrow> monitor \<Rightarrow> monitor" where
  "checkStatus [] m = m"
| "checkStatus (r # rs) m =
     (let m1 = m\<lparr>checks := Suc (checks m), pending := False\<rparr> in
      case r of
        Inl error \<Rightarrow> m1
      | Inr response \<Rightarrow>
          if success response then
            if process_status response = ascii ''completed'' then
              m1\<lparr>notified := notified m1 @ [ProcessingCompleted],
                 refreshes := Suc (refreshes m1)\<rparr>
            else if process_status response = ascii ''failed'' then
              m1\<lparr>notified := notified m1 @ [ProcessingFailed],
                 refreshes := Suc (refreshes m1)\<rparr>
            else if process_status response = ascii ''processing'' then
              checkStatus rs (m1\<lparr>timers := timers m1 @ [3000], pending := True\<rparr>)
            else m1
          else m1)"

text \<open>\<open>monitorFileProcessing\<close>: \<open>setTimeout(checkStatus, 2000)\<close>.\<close>

definition monitorFileProcessing :: "(js_error + status_reply) list \<Rightarrow> monitor" where
  "monitorFileProcessing rs =
     checkStatus rs
       \<lparr>checks = 0, timers = [2000], pending = True, notified = [], refreshes = 0\<rparr>"

text \<open>A successful status reply with the given \<open>process_status\<close>.\<close>

definition status_is :: "jsstring \<Rightarrow> js_error + status_reply" where
  "status_is s = Inr \<lparr>success = True, reply_message = [], process_status = s\<rparr>"

subsection \<open>The mutating operations\<close>

text \<open>
  The state the mutating operations of the FileManager can reach: the selection, the
  notifications, the number of calls of \<open>loadFileList\<close> (each one fetches the list with
  \<open>API.FileAPI.getFileList\<close>), the files whose processing is being monitored, and the
  map of the one \<open>CacheManager\<close> of the page (\<open>window.API.Cache\<close>).
\<close>

record 'v file_manager =
  selectedFiles :: "nat set"
  file_notifications :: "file_notification list"
  list_loads :: nat
  monitored :: "nat list"
  cache :: "'v cache"

definition notify :: "file_notification \<Rightarrow> 'v file_manager \<Rightarrow> 'v file_manager" where
  "notify n fm = fm\<lparr>file_notifications := file_notifications fm @ [n]\<rparr>"

text \<open>\<open>refreshFileList\<close>: clear the selection, then \<open>loadFileList()\<close>.\<close>

definition refreshFileList :: "'v file_manager \<Rightarrow> 'v file_manager" where
  "refreshFileList fm = fm\<lparr>selectedFiles := {}, list_loads := Suc (list_loads fm)\<rparr>"

text \<open>
  \<open>performDeleteFile(fileId)\<close>; \<open>result\<close> is what
  \<open>await API.FileAPI.deleteFile(fileId)\<close> gives. A reply without success is thrown as
  \<open>new Error(response.message)\<close> and reported by the \<open>catch\<close> block like any error.
\<close>

definition performDeleteFile ::
  "nat \<Rightarrow> js_error + reply \<Rightarrow> 'v file_manager \<Rightarrow> 'v file_manager" where
  "performDeleteFile fileId result fm =
     (case result of
        Inl error \<Rightarrow> notify (DeleteFailed (message error)) fm
      | Inr response \<Rightarrow>
          if success response then
            refreshFileList
              ((notify DeleteSucceeded fm)\<lparr>selectedFiles := selectedFiles fm - {fileId}\<rparr>)
          else notify (DeleteFailed (reply_message response)) fm)"

text \<open>
  \<open>performBatchDelete()\<close>: the valid ids of the selection (positive integers) are sent;
  with none, a warning and no request.
\<close>

definition performBatchDelete ::
  "js_error + batch_reply \<Rightarrow> 'v file_manager \<Rightarrow> 'v file_manager" where
  "performBatchDelete result fm =
     (if {fileId \<in> selectedFiles fm. fileId > 0} = {} then notify NoValidFiles fm
      else
        (case result of
           Inl error \<Rightarrow> notify (BatchDeleteFailed (message error)) fm
         | Inr response \<Rightarrow>
             if success response then
               refreshFileList
                 ((notify (BatchDeleteCompleted (success_count response) (total_count response)) fm)
                    \<lparr>selectedFiles := {}\<rparr>)
             else notify (BatchDeleteFailed (reply_message response)) fm))"

text \<open>\<open>performRename(fileId, newName)\<close>.\<close>

definition performRename ::
  "nat \<Rightarrow> jsstring \<Rightarrow> js_error + reply \<Rightarrow> 'v file_manager \<Rightarrow> 'v file_manager" where
  "performRename fileId newName result fm =
     (case result of
        Inl error \<Rightarrow> notify (RenameFailed (message error)) fm
      | Inr response \<Rightarrow>
          if success response then refreshFileList (notify RenameSucceeded fm)
          else notify (RenameFailed (reply_message response)) fm)"

text \<open>
  \<open>uploadFile(file)\<close>: on success the list is refreshed and
  \<open>monitorFileProcessing(response.data.file_id)\<close> started.
\<close>

definition uploadFile ::
  "js_error + upload_reply \<Rightarrow> 'v file_manager \<Rightarrow> 'v file_manager" where
  "uploadFile result fm =
     (case result of
        Inl error \<Rightarrow> notify (UploadFailed (message error)) fm
      | Inr response \<Rightarrow>
          if success response then
            (refreshFileList (notify UploadSucceeded fm))
              \<lparr>monitored := monitored fm @ [file_id response]\<rparr>
          else notify (UploadFailed (reply_message response)) fm)"

section \<open>RequestInterceptor (api.js)\<close>

subsection \<open>Promises of the platform\<close>

text \<open>
  A promise is pending or settled with an outcome (\<open>Inl\<close> the error, \<open>Inr\<close> the
  value), and holds the reactions registered on it while it was pending. When it settles,
  the platform runs them in the order of registration. Two kinds of reaction occur here:
  the callback that \<open>addRequest\<close> passes to \<open>promise.finally\<close>, and the continuation
  of a caller that awaits the promise. A reaction registered on a promise that has settled
  runs without waiting for anything else; the model runs it at once.
\<close>

datatype 'v settlement = Pending | Settled "js_error + 'v"

datatype 'k reaction =
    DeleteFromQueue 'k
  | Resume nat 'k

record ('k, 'v) promise =
  settlement :: "'v settlement"
  reactions :: "'k reaction list"

text \<open>
  The page: the \<open>requestQueue\<close> map of the interceptor, from keys to promises (a promise
  is named by its position in \<open>promises\<close>), the number of network calls started, and
  the callers resumed so far, each with the outcome it observes and with what
  \<open>cancelDuplicate\<close> of its key returns at that moment.
\<close>

record ('k, 'v) page =
  requestQueue :: "'k \<rightharpoonup> nat"
  promises :: "('k, 'v) promise list"
  network_calls :: nat
  resumed :: "(nat \<times> (js_error + 'v) \<times> nat option) list"

definition run_reaction :: "js_error + 'v \<Rightarrow> 'k reaction \<Rightarrow> ('k, 'v) page \<Rightarrow> ('k, 'v) page" where
  "run_reaction res r w =
     (case r of
        DeleteFromQueue key \<Rightarrow> w\<lparr>requestQueue := (requestQueue w)(key := None)\<rparr>
      | Resume caller key \<Rightarrow>
          w\<lparr>resumed := resumed w @ [(caller, res, requestQueue w key)]\<rparr>)"

text \<open>Registering a reaction on promise \<open>p\<close> (\<open>p.finally(f)\<close>, \<open>await p\<close>).\<close>

definition react :: "nat \<Rightarrow> 'k reaction \<Rightarrow> ('k, 'v) page \<Rightarrow> ('k, 'v) page" where
  "react p r w =
     (if p < length (promises w) then
        (case settlement (promises w ! p) of
           Pending \<Rightarrow>
             w\<lparr>promises := (promises w)
                   [p := (promises w ! p)\<lparr>reactions := reactions (promises w ! p) @ [r]\<rparr>]\<rparr>
         | Settled res \<Rightarrow> run_reaction res r w)
      else w)"

text \<open>Promise \<open>p\<close> settles; a promise settles once.\<close>

definition settle :: "nat \<Rightarrow> js_error + 'v \<Rightarrow> ('k, 'v) page \<Rightarrow> ('k, 'v) page" where
  "settle p res w =
     (if p < length (promises w) then
        (case settlement (promises w ! p) of
           Pending \<Rightarrow>
             fold (run_reaction res) (reactions (promises w ! p))
               (w\<lparr>promises := (promises w)[p := \<lparr>settlement = Settled res, reactions = []\<rparr>]\<rparr>)
         | Settled previous \<Rightarrow> w)
      else w)"

subsection \<open>The interceptor\<close>

text \<open>
  \<open>addRequest(key, promise)\<close>: \<open>requestQueue.set(key, promise)\<close>, then
  \<open>promise.finally(() => requestQueue.delete(key))\<close>; the promise itself is returned.
\<close>

definition addRequest :: "'k \<Rightarrow> nat \<Rightarrow> ('k, 'v) page \<Rightarrow> ('k, 'v) page" where
  "addRequest key p w =
     react p (DeleteFromQueue key) (w\<lparr>requestQueue := (requestQueue w)(key \<mapsto> p)\<rparr>)"

text \<open>\<open>cancelDuplicate(key)\<close>: the promise in the queue, or \<open>null\<close>.\<close>

definition cancelDuplicate :: "'k \<Rightarrow> ('k, 'v) page \<Rightarrow> nat option" where
  "cancelDuplicate key w = requestQueue w key"

definition cancelAll :: "('k, 'v) page \<Rightarrow> ('k, 'v) page" where
  "cancelAll w = w\<lparr>requestQueue := Map.empty\<rparr>"

text \<open>
  Modelled from the spec: the operation \<open>joinOrStart(key, factory)\<close> of the
  deduplicating wrapper, which the source leaves to the users of the interceptor (it has
  none). After the specification: if an in-flight entry exists for the key, the caller is
  attached to its pending result; otherwise a new operation is started via the factory and
  registered. The check is \<open>cancelDuplicate\<close>, the registration \<open>addRequest\<close>;
  \<open>start_request\<close> is the factory, which starts one network call and returns its
  pending promise.
\<close>

definition start_request :: "('k, 'v) page \<Rightarrow> nat \<times> ('k, 'v) page" where
  "start_request w =
     (length (promises w),
      w\<lparr>promises := promises w @ [\<lparr>settlement = Pending, reactions = []\<rparr>],
        network_calls := Suc (network_calls w)\<rparr>)"

definition joinOrStart :: "'k \<Rightarrow> nat \<Rightarrow> ('k, 'v) page \<Rightarrow> ('k, 'v) page" where
  "joinOrStart key caller w =
     (case cancelDuplicate key w of
        Some p \<Rightarrow> react p (Resume caller key) w
      | None \<Rightarrow>
          (case start_request w of
             (p, w1) \<Rightarrow> react p (Resume caller key) (addRequest key p w1)))"

section \<open>Properties of CacheManager\<close>

lemma CacheManager_set_stores:
  "(CacheManager_set storedAt k v ttl c) k = Some \<lparr>data = v, expireTime = storedAt + ttl\<rparr>"
  by (simp add: CacheManager_set_def)

text \<open>
  C2, as the claim states it, fails exactly at the instant of expiry: the entry stored at
  time 0 with lifetime 5 is still returned, and kept, by a \<open>get\<close> at time 5.
\<close>

theorem C2_get_at_expiry_counterexample:
  "CacheManager_get 5 (ascii ''k'') (CacheManager_set 0 (ascii ''k'') (1::nat) 5 Map.empty)
     = (Some 1, CacheManager_set 0 (ascii ''k'') (1::nat) 5 Map.empty)"
  by (simp add: CacheManager_get_def CacheManager_set_def)

text \<open>
  C2, amended: for an entry of key \<open>k\<close> stored at \<open>storedAt\<close> with lifetime \<open>ttl\<close>,
  \<open>get(k)\<close> at time \<open>now\<close> returns the stored value and leaves the map as it is
  when \<open>now \<le> storedAt + ttl\<close> (the instant of expiry included), and returns absent and
  deletes the entry when \<open>now > storedAt + ttl\<close>.
\<close>

theorem C2_get_expiry:
  assumes "c k = Some \<lparr>data = v, expireTime = storedAt + ttl\<rparr>"
  shows "CacheManager_get now k c =
           (if now \<le> storedAt + ttl then (Some v, c) else (None, c(k := None)))"
  using assms by (simp add: CacheManager_get_def)

theorem C2_get_expiry_witness:
  "CacheManager_get 5 (ascii ''k'') (CacheManager_set 0 (ascii ''k'') (1::nat) 5 Map.empty)
     = (Some 1, CacheManager_set 0 (ascii ''k'') 1 5 Map.empty)
   \<and> CacheManager_get 6 (ascii ''k'') (CacheManager_set 0 (ascii ''k'') (1::nat) 5 Map.empty)
     = (None, (CacheManager_set 0 (ascii ''k'') 1 5 Map.empty)(ascii ''k'' := None))"
  using C2_get_expiry [where c = "CacheManager_set 0 (ascii ''k'') (1::nat) 5 Map.empty"
          and k = "ascii ''k''" and v = 1 and storedAt = 0 and ttl = 5 and now = 5]
        C2_get_expiry [where c = "CacheManager_set 0 (ascii ''k'') (1::nat) 5 Map.empty"
          and k = "ascii ''k''" and v = 1 and storedAt = 0 and ttl = 5 and now = 6]
        CacheManager_set_stores [of 0 "ascii ''k''" "1::nat" 5 Map.empty]
  by simp

section \<open>Properties of the retry policy\<close>

text \<open>
  C3: the error that \<open>request\<close> throws when its timer aborts the call is the one with the
  Chinese message, which contains none of the six fragments \<open>shouldRetry\<close> looks for:
  a timed-out request is not retried, although \<open>shouldRetry\<close> looks for \<open>timeout\<close>.
\<close>

theorem C3_timeout_not_retryable:
  "request (Rejected \<lparr>name = ascii ''AbortError'', message = m\<rparr>)
     = (Inl (Error request_timeout_message) :: js_error + 'a)
   \<and> \<not> shouldRetry (Error request_timeout_message)"
  by (simp add: request_def request_catch_def request_timeout_message_def shouldRetry_def
        Error_def ascii_def)

text \<open>
  What \<open>shouldRetry\<close> does accept: the network error of \<open>upload\<close> (message U+7F51
  U+7EDC U+9519 U+8BEF), and the error of \<open>request\<close> for a 503 response without a
  message in its body. It also accepts a 404 whose message happens to contain \<open>500\<close>.
\<close>

lemma shouldRetry_network_error: "shouldRetry (Error [0x7F51, 0x7EDC, 0x9519, 0x8BEF])"
  by (simp add: shouldRetry_def Error_def)

lemma request_503_retryable:
  "request (Resolved \<lparr>status = 503, statusText = ascii ''Service Unavailable'',
                       errorData = NoMessage, payload = p\<rparr>)
     = Inl (Error (ascii ''HTTP 503: Service Unavailable''))
   \<and> shouldRetry (Error (ascii ''HTTP 503: Service Unavailable''))"
  by (simp add: request_def request_catch_def ok_def shouldRetry_def Error_def ascii_def)

lemma request_404_retried:
  "request (Resolved \<lparr>status = 404, statusText = ascii ''Not Found'',
                       errorData = Message (ascii ''file 1500 not found''), payload = p\<rparr>)
     = Inl (Error (ascii ''file 1500 not found''))
   \<and> shouldRetry (Error (ascii ''file 1500 not found''))"
  by (simp add: request_def request_catch_def ok_def shouldRetry_def Error_def ascii_def)

lemma execute_from_all_retryable:
  assumes "\<And>j. i \<le> j \<Longrightarrow> int j \<le> maxRetries r \<Longrightarrow> requestFn j = Inl (e j) \<and> shouldRetry (e j)"
    and "int i \<le> maxRetries r"
  shows "execute_from r requestFn i lastError ws =
     \<lparr>outcome = Inl (Some (e (nat (maxRetries r)))), tries = Suc (nat (maxRetries r)),
      waits = ws @ map (\<lambda>j. delay r * 2 ^ j) [i ..< nat (maxRetries r)]\<rparr>"
  using assms
proof (induction r requestFn i lastError ws rule: execute_from.induct)
  case (1 r requestFn i lastError ws)
  have here: "requestFn i = Inl (e i)" "shouldRetry (e i)" using "1.prems" by auto
  show ?case
  proof (cases "int i = maxRetries r")
    case True
    then have "i = nat (maxRetries r)" by simp
    then show ?thesis using here True by (subst execute_from.simps) simp
  next
    case False
    then have lt: "int (Suc i) \<le> maxRetries r" using "1.prems"(2) by simp
    have rest: "\<And>j. Suc i \<le> j \<Longrightarrow> int j \<le> maxRetries r
                  \<Longrightarrow> requestFn j = Inl (e j) \<and> shouldRetry (e j)"
      using "1.prems"(1) by simp
    have IH: "execute_from r requestFn (Suc i) (Some (e i)) (ws @ [delay r * 2 ^ i]) =
      \<lparr>outcome = Inl (Some (e (nat (maxRetries r)))), tries = Suc (nat (maxRetries r)),
       waits = (ws @ [delay r * 2 ^ i])
                 @ map (\<lambda>j. delay r * 2 ^ j) [Suc i ..< nat (maxRetries r)]\<rparr>"
      by (rule "1.IH"[OF "1.prems"(2) here(1) False here(2) rest lt])
    have "i < nat (maxRetries r)" using lt by linarith
    then have upt: "[i ..< nat (maxRetries r)] = i # [Suc i ..< nat (maxRetries r)]"
      by (simp add: upt_conv_Cons)
    have "execute_from r requestFn i lastError ws =
          execute_from r requestFn (Suc i) (Some (e i)) (ws @ [delay r * 2 ^ i])"
      using here False "1.prems"(2) by (subst execute_from.simps) simp
    then show ?thesis unfolding IH upt by simp
  qed
qed

lemma upt_0_3: "[0 ..< 3] = [0, 1, 2::nat]"
  by (simp add: upt_rec numeral_3_eq_3)

text \<open>
  C4: when each of the calls of \<open>requestFn\<close> throws an error that \<open>shouldRetry\<close> accepts,
  \<open>execute\<close> of the default retrier (3 retries, base 1000 ms) calls \<open>requestFn\<close> exactly
  4 times, waits 1000, 2000 and 4000 ms after the first three failures, and throws the
  error of the fourth call itself.
\<close>

theorem C4_execute_exhausts:
  assumes "\<And>i. i \<le> 3 \<Longrightarrow> requestFn i = Inl (e i) \<and> shouldRetry (e i)"
  shows "execute retrier requestFn =
           \<lparr>outcome = Inl (Some (e 3)), tries = 4, waits = [1000, 2000, 4000]\<rparr>"
proof -
  have "execute_from retrier requestFn 0 None [] =
     \<lparr>outcome = Inl (Some (e (nat (maxRetries retrier)))), tries = Suc (nat (maxRetries retrier)),
      waits = [] @ map (\<lambda>j. delay retrier * 2 ^ j) [0 ..< nat (maxRetries retrier)]\<rparr>"
    by (rule execute_from_all_retryable) (use assms in \<open>simp_all add: retrier_def\<close>)
  then show ?thesis
    by (simp add: execute_def retrier_def upt_0_3)
qed

theorem C4_execute_exhausts_witness:
  "execute retrier (\<lambda>i. Inl (Error (ascii ''HTTP 503: Service Unavailable'')))
     = (\<lparr>outcome = Inl (Some (Error (ascii ''HTTP 503: Service Unavailable''))),
         tries = 4, waits = [1000, 2000, 4000]\<rparr> :: nat execution)"
proof -
  have "shouldRetry (Error (ascii ''HTTP 503: Service Unavailable''))"
    by (simp add: shouldRetry_def Error_def ascii_def)
  then show ?thesis
    using C4_execute_exhausts
            [of "\<lambda>i. Inl (Error (ascii ''HTTP 503: Service Unavailable''))"
                "\<lambda>i. Error (ascii ''HTTP 503: Service Unavailable'')"]
    by simp
qed

section \<open>Properties of the stream consumer\<close>

lemma str_split_nonempty: "str_split sep xs \<noteq> []"
  by (induction xs) (auto split: list.splits)

lemma str_split_append_sep:
  "str_split sep (xs @ sep # ys) = str_split sep xs @ str_split sep ys"
proof (induction xs)
  case Nil
  show ?case by simp
next
  case (Cons x xs)
  obtain l ls where "str_split sep xs = l # ls"
    using str_split_nonempty[of sep xs] by (cases "str_split sep xs") auto
  then show ?case using Cons by simp
qed

lemma last_str_split_snoc: "last (str_split sep (xs @ [sep])) = []"
  by (simp add: str_split_append_sep)

lemma searchStream_lines_log:
  "searchStream_lines parse (\<lambda>d log. log @ [d]) lines log
     = log @ concat (map (line_events parse) lines)"
  by (induction lines arbitrary: log)
     (auto simp: searchStream_line_def line_events_def split: option.splits)

lemma searchStream_read_log:
  "searchStream_read parse (\<lambda>d log. log @ [d]) cs log
     = log @ concat (map (\<lambda>chunk. concat (map (line_events parse) (str_split 10 chunk))) cs)"
  by (induction cs arbitrary: log) (auto simp: searchStream_lines_log)

lemma received_eq:
  "received parse cs
     = concat (map (\<lambda>chunk. concat (map (line_events parse) (str_split 10 chunk))) cs)"
  by (simp add: received_def searchStream_def ok_def searchStream_read_log)

lemma line_events_empty: "line_events parse [] = []"
  by (simp add: line_events_def ascii_def)

lemma aligned_chunk:
  assumes "chunk = [] \<or> last chunk = 10"
  shows "last (str_split 10 chunk) = []"
    and "concat (map (line_events parse) (str_split 10 chunk))
         = concat (map (line_events parse) (butlast (str_split 10 chunk)))"
proof -
  show l: "last (str_split 10 chunk) = []"
  proof (cases "chunk = []")
    case True
    then show ?thesis by simp
  next
    case False
    then have "chunk = butlast chunk @ [10]"
      using assms by (metis append_butlast_last_id)
    then show ?thesis
      using last_str_split_snoc[of 10 "butlast chunk"] by simp
  qed
  have "str_split 10 chunk = butlast (str_split 10 chunk) @ [last (str_split 10 chunk)]"
    using str_split_nonempty[of 10 chunk] by simp
  then have "concat (map (line_events parse) (str_split 10 chunk))
     = concat (map (line_events parse) (butlast (str_split 10 chunk) @ [[]]))"
    using l by simp
  then show "concat (map (line_events parse) (str_split 10 chunk))
         = concat (map (line_events parse) (butlast (str_split 10 chunk)))"
    by (simp add: line_events_empty)
qed

lemma carry_over_aligned:
  assumes "\<forall>chunk \<in> set cs. chunk = [] \<or> last chunk = 10"
  shows "spec_carry_over_consumer parse [] cs
     = concat (map (\<lambda>chunk. concat (map (line_events parse) (str_split 10 chunk))) cs)"
  using assms
proof (induction cs)
  case Nil
  show ?case by simp
next
  case (Cons chunk cs)
  have a: "chunk = [] \<or> last chunk = 10" using Cons.prems by simp
  have rest: "spec_carry_over_consumer parse [] cs
     = concat (map (\<lambda>chunk. concat (map (line_events parse) (str_split 10 chunk))) cs)"
    using Cons by simp
  show ?case
    using aligned_chunk(1)[OF a] aligned_chunk(2)[OF a, of parse] rest by simp
qed

text \<open>
  C1, as the claim states it, fails on its own example: of the three chunks, the first
  holds the beginning of the \<open>start\<close> line, which does not parse and is skipped, the
  second holds its end, which does not start with \<open>data: \<close>; the subscriber receives
  the \<open>content\<close> event only, where a consumer with a carry-over buffer dispatches
  \<open>start\<close> and then \<open>content\<close>.
\<close>

theorem C1_split_line_counterexample:
  \<open>received JSON_parse_flat
     [ascii ''data: {"type":"sta'', ascii ''rt"}\<newline>'',
      ascii ''data: {"type":"content","content":"Hi"}\<newline>'']
     = [obj [(''type'', ''content''), (''content'', ''Hi'')]]
   \<and> spec_carry_over_consumer JSON_parse_flat []
     [ascii ''data: {"type":"sta'', ascii ''rt"}\<newline>'',
      ascii ''data: {"type":"content","content":"Hi"}\<newline>'']
     = [obj [(''type'', ''start'')], obj [(''type'', ''content''), (''content'', ''Hi'')]]\<close>
  by (simp add: received_eq line_events_def JSON_parse_flat_def ascii_def whitespace_def obj_def)

text \<open>
  C1, amended: \<open>searchStream\<close> keeps no carry-over buffer; what the subscriber receives
  from a sequence of chunks is what it receives from each chunk taken alone, one after the
  other. When every chunk ends at a line boundary (it is empty or ends with a newline),
  that is exactly what the consumer with a carry-over buffer dispatches: the events of the
  complete lines, in order.
\<close>

theorem C1_chunks_alone:
  "received parse cs = concat (map (\<lambda>chunk. received parse [chunk]) cs)
   \<and> ((\<forall>chunk \<in> set cs. chunk = [] \<or> last chunk = 10)
        \<longrightarrow> received parse cs = spec_carry_over_consumer parse [] cs)"
  by (simp add: received_eq carry_over_aligned)

theorem C1_chunks_alone_witness:
  \<open>last (ascii ''data: {"type":"start"}\<newline>'') = 10
   \<and> last (ascii ''data: {"type":"content","content":"Hi"}\<newline>'') = 10
   \<and> received JSON_parse_flat
        [ascii ''data: {"type":"start"}\<newline>'',
         ascii ''data: {"type":"content","content":"Hi"}\<newline>'']
     = spec_carry_over_consumer JSON_parse_flat []
        [ascii ''data: {"type":"start"}\<newline>'',
         ascii ''data: {"type":"content","content":"Hi"}\<newline>'']
   \<and> spec_carry_over_consumer JSON_parse_flat []
        [ascii ''data: {"type":"start"}\<newline>'',
         ascii ''data: {"type":"content","content":"Hi"}\<newline>'']
     = [obj [(''type'', ''start'')], obj [(''type'', ''content''), (''content'', ''Hi'')]]\<close>
proof -
  have l1: \<open>last (ascii ''data: {"type":"start"}\<newline>'') = 10\<close>
    and l2: \<open>last (ascii ''data: {"type":"content","content":"Hi"}\<newline>'') = 10\<close>
    by (simp_all add: ascii_def)
  have aligned: \<open>\<forall>chunk \<in> set [ascii ''data: {"type":"start"}\<newline>'',
                     ascii ''data: {"type":"content","content":"Hi"}\<newline>''].
       chunk = [] \<or> last chunk = 10\<close>
    using l1 l2 by simp
  have spec: \<open>spec_carry_over_consumer JSON_parse_flat []
        [ascii ''data: {"type":"start"}\<newline>'',
         ascii ''data: {"type":"content","content":"Hi"}\<newline>'']
     = [obj [(''type'', ''start'')], obj [(''type'', ''content''), (''content'', ''Hi'')]]\<close>
    by (simp add: line_events_def JSON_parse_flat_def ascii_def whitespace_def obj_def)
  show ?thesis
    using C1_chunks_alone [of JSON_parse_flat
            \<open>[ascii ''data: {"type":"start"}\<newline>'',
              ascii ''data: {"type":"content","content":"Hi"}\<newline>'']\<close>]
          aligned spec l1 l2
    by blast
qed

section \<open>Properties of ChatManager.sendMessage\<close>

lemma searchStream_lines_dispatch:
  "searchStream_lines parse onMessage lines s
     = dispatch (concat (map (line_events parse) lines)) s"
proof (induction lines arbitrary: s)
  case Nil
  show ?case by simp
next
  case (Cons line lines)
  have dispatch_append: "\<And>xs ys t. dispatch (xs @ ys) t = dispatch ys (dispatch xs t)"
  proof -
    fix xs ys t show "dispatch (xs @ ys) t = dispatch ys (dispatch xs t)"
      by (induction xs arbitrary: t) auto
  qed
  have "searchStream_line parse onMessage line s = dispatch (line_events parse line) s"
    by (simp add: searchStream_line_def line_events_def split: option.splits)
  then show ?case using Cons by (simp add: dispatch_append)
qed

lemma dispatch_append: "dispatch (xs @ ys) t = dispatch ys (dispatch xs t)"
  by (induction xs arbitrary: t) auto

lemma searchStream_read_dispatch:
  "searchStream_read parse onMessage cs s = dispatch (received parse cs) s"
  by (induction cs arbitrary: s)
     (auto simp: received_eq searchStream_lines_dispatch dispatch_append)

lemma updates_append: "updates (xs @ ys) = updates xs @ updates ys"
  by (induction xs rule: updates.induct) auto

lemma types_ne:
  "ascii ''content'' \<noteq> ascii ''start''" "ascii ''content'' \<noteq> ascii ''progress''"
  by (simp_all add: ascii_def)

lemma onMessage_content:
  "is_content d \<Longrightarrow> onMessage d (a, c) =
     (a\<lparr>assistantMessage := assistantMessage a @ to_string (field d ''content'')\<rparr>,
      call_ui [UpdateStreamingMessage (assistantMessage a @ to_string (field d ''content''))] c)"
  by (simp add: onMessage_def is_content_def types_ne)

lemma onMessage_other:
  "\<not> is_content d \<Longrightarrow> assistantMessage (fst (onMessage d (a, c))) = assistantMessage a
      \<and> updates (ui (snd (onMessage d (a, c)))) = updates (ui c)"
  by (simp add: onMessage_def is_content_def call_ui_def updates_append)

lemma prefixes_Cons:
  "map (\<lambda>n. x @ concat (take (Suc n) (f # fs))) [0 ..< length (f # fs)]
     = (x @ f) # map (\<lambda>n. (x @ f) @ concat (take (Suc n) fs)) [0 ..< length fs]"
proof -
  have "[0 ..< length (f # fs)] = 0 # map Suc [0 ..< length fs]"
    by (simp add: upt_conv_Cons map_Suc_upt del: upt_Suc)
  then show ?thesis by (simp add: comp_def del: upt_Suc)
qed

lemma dispatch_transcript:
  "assistantMessage (fst (dispatch ds (a, c))) = assistantMessage a @ concat (fragments ds)
   \<and> updates (ui (snd (dispatch ds (a, c)))) =
       updates (ui c) @ map (\<lambda>n. assistantMessage a @ concat (take (Suc n) (fragments ds)))
                            [0 ..< length (fragments ds)]"
proof (induction ds arbitrary: a c)
  case Nil
  show ?case by (simp add: fragments_def)
next
  case (Cons d ds)
  show ?case
  proof (cases "is_content d")
    case True
    define f where "f = to_string (field d ''content'')"
    define a1 where "a1 = a\<lparr>assistantMessage := assistantMessage a @ f\<rparr>"
    define c1 where "c1 = call_ui [UpdateStreamingMessage (assistantMessage a @ f)] c"
    have fr: "fragments (d # ds) = f # fragments ds"
      using True by (simp add: fragments_def f_def)
    have step: "dispatch (d # ds) (a, c) = dispatch ds (a1, c1)"
      by (simp add: onMessage_content[OF True] a1_def c1_def f_def)
    have m1: "assistantMessage a1 = assistantMessage a @ f" by (simp add: a1_def)
    have u1: "updates (ui c1) = updates (ui c) @ [assistantMessage a @ f]"
      by (simp add: c1_def call_ui_def updates_append)
    show ?thesis
      unfolding step fr prefixes_Cons using Cons[of a1 c1] by (simp add: m1 u1)
  next
    case False
    have fr: "fragments (d # ds) = fragments ds" using False by (simp add: fragments_def)
    obtain a' c' where s: "onMessage d (a, c) = (a', c')" by (cases "onMessage d (a, c)")
    have "assistantMessage a' = assistantMessage a" "updates (ui c') = updates (ui c)"
      using onMessage_other[OF False, of a c] s by simp_all
    then show ?thesis unfolding dispatch.simps s fr using Cons[of a' c'] by simp
  qed
qed

lemma dispatch_start_A_B_done:
  "dispatch [obj [(''type'', ''start'')], obj [(''type'', ''content''), (''content'', ''A'')],
             obj [(''type'', ''content''), (''content'', ''B'')], obj [(''type'', ''done'')]]
            (new_answer, c)
   = (\<lparr>assistantMessage = ascii ''AB'', sources = EmptyArray\<rparr>,
      call_ui [UpdateChatStatus Retrieving,
               UpdateStreamingMessage (ascii ''A''), UpdateStreamingMessage (ascii ''AB''),
               HideTypingIndicator, FinalizeStreamingMessage (ascii ''AB'') EmptyArray,
               UpdateChatStatus Ready] c)"
  by (simp add: onMessage_def new_answer_def call_ui_def field_def obj_def ascii_def to_string_def)

text \<open>
  C9: when the stream delivers the events \<open>ds\<close> in this order, the callback of
  \<open>sendMessage\<close> leaves in \<open>assistantMessage\<close> the concatenation of the fragments of
  the content events of \<open>ds\<close>, and the calls of \<open>updateStreamingMessage\<close> it made carry,
  one per content event, the concatenation of the fragments up to and including that
  event. For \<open>start\<close>, \<open>content("A")\<close>, \<open>content("B")\<close>, \<open>done\<close> the transcript is
  \<open>AB\<close>, shown after \<open>A\<close>, and the answer is finalised as \<open>AB\<close>.
\<close>

theorem C9_transcript:
  assumes "received parse cs = ds"
  shows "assistantMessage (fst (searchStream_read parse onMessage cs (new_answer, c)))
           = concat (fragments ds)
   \<and> updates (ui (snd (searchStream_read parse onMessage cs (new_answer, c))))
       = updates (ui c) @ map (\<lambda>n. concat (take (Suc n) (fragments ds)))
                              [0 ..< length (fragments ds)]
   \<and> (ds = [obj [(''type'', ''start'')], obj [(''type'', ''content''), (''content'', ''A'')],
             obj [(''type'', ''content''), (''content'', ''B'')], obj [(''type'', ''done'')]]
      \<longrightarrow> searchStream_read parse onMessage cs (new_answer, c)
           = (\<lparr>assistantMessage = ascii ''AB'', sources = EmptyArray\<rparr>,
              call_ui [UpdateChatStatus Retrieving,
                 UpdateStreamingMessage (ascii ''A''), UpdateStreamingMessage (ascii ''AB''),
                 HideTypingIndicator, FinalizeStreamingMessage (ascii ''AB'') EmptyArray,
                 UpdateChatStatus Ready] c))"
proof -
  have run: "searchStream_read parse onMessage cs (new_answer, c) = dispatch ds (new_answer, c)"
    using assms by (simp add: searchStream_read_dispatch)
  have empty: "assistantMessage new_answer = []" by (simp add: new_answer_def)
  show ?thesis
    unfolding run
    using dispatch_transcript[of ds new_answer c] dispatch_start_A_B_done[of c]
    by (simp add: empty)
qed

theorem C9_transcript_witness:
  \<open>received JSON_parse_flat
     [ascii ''data: {"type":"start"}\<newline>data: {"type":"content","content":"A"}\<newline>'',
      ascii ''data: {"type":"content","content":"B"}\<newline>'',
      ascii ''data: {"type":"done"}\<newline>'']
     = [obj [(''type'', ''start'')], obj [(''type'', ''content''), (''content'', ''A'')],
        obj [(''type'', ''content''), (''content'', ''B'')], obj [(''type'', ''done'')]]
   \<and> searchStream_read JSON_parse_flat onMessage
     [ascii ''data: {"type":"start"}\<newline>data: {"type":"content","content":"A"}\<newline>'',
      ascii ''data: {"type":"content","content":"B"}\<newline>'',
      ascii ''data: {"type":"done"}\<newline>'']
     (new_answer, \<lparr>isStreaming = True, currentSessionId = Some 1, ui = [],
                   chat_notifications = []\<rparr>)
     = (\<lparr>assistantMessage = ascii ''AB'', sources = EmptyArray\<rparr>,
        \<lparr>isStreaming = True, currentSessionId = Some 1,
         ui = [UpdateChatStatus Retrieving,
               UpdateStreamingMessage (ascii ''A''), UpdateStreamingMessage (ascii ''AB''),
               HideTypingIndicator, FinalizeStreamingMessage (ascii ''AB'') EmptyArray,
               UpdateChatStatus Ready],
         chat_notifications = []\<rparr>)\<close>
proof -
  have rec: \<open>received JSON_parse_flat
     [ascii ''data: {"type":"start"}\<newline>data: {"type":"content","content":"A"}\<newline>'',
      ascii ''data: {"type":"content","content":"B"}\<newline>'',
      ascii ''data: {"type":"done"}\<newline>'']
     = [obj [(''type'', ''start'')], obj [(''type'', ''content''), (''content'', ''A'')],
        obj [(''type'', ''content''), (''content'', ''B'')], obj [(''type'', ''done'')]]\<close>
    by (simp add: received_eq line_events_def JSON_parse_flat_def ascii_def whitespace_def obj_def)
  show ?thesis
    using C9_transcript [OF rec, of "\<lparr>isStreaming = True, currentSessionId = Some 1, ui = [],
                   chat_notifications = []\<rparr>"] rec
    by (simp add: call_ui_def)
qed

lemma onMessage_frame:
  "onMessage d (a, c\<lparr>chat_notifications := n\<rparr>) =
     (fst (onMessage d (a, c)), (snd (onMessage d (a, c)))\<lparr>chat_notifications := n\<rparr>)"
  by (simp add: onMessage_def call_ui_def)

lemma onMessage_keeps:
  "isStreaming (snd (onMessage d (a, c))) = isStreaming c
   \<and> chat_notifications (snd (onMessage d (a, c))) = chat_notifications c"
  by (simp add: onMessage_def call_ui_def)

lemma dispatch_frame:
  "dispatch ds (a, c\<lparr>chat_notifications := n\<rparr>) =
     (fst (dispatch ds (a, c)), (snd (dispatch ds (a, c)))\<lparr>chat_notifications := n\<rparr>)"
proof (induction ds arbitrary: a c)
  case Nil
  show ?case by simp
next
  case (Cons d ds)
  obtain a' c' where s: "onMessage d (a, c) = (a', c')" by (cases "onMessage d (a, c)")
  have IH: "dispatch ds (a', c'\<lparr>chat_notifications := n\<rparr>) =
     (fst (dispatch ds (a', c')), (snd (dispatch ds (a', c')))\<lparr>chat_notifications := n\<rparr>)"
    by (rule Cons)
  show ?case
    using IH s onMessage_frame[where d = d and a = a and c = c and n = n] by simp
qed

lemma dispatch_keeps:
  "isStreaming (snd (dispatch ds (a, c))) = isStreaming c
   \<and> chat_notifications (snd (dispatch ds (a, c))) = chat_notifications c"
proof (induction ds arbitrary: a c)
  case Nil
  show ?case by simp
next
  case (Cons d ds)
  obtain a' c' where s: "onMessage d (a, c) = (a', c')" by (cases "onMessage d (a, c)")
  have IH: "isStreaming (snd (dispatch ds (a', c'))) = isStreaming c'
   \<and> chat_notifications (snd (dispatch ds (a', c'))) = chat_notifications c'"
    by (rule Cons)
  show ?case using IH s onMessage_keeps[of d a c] by simp
qed

text \<open>
  What the guard of \<open>sendMessage\<close> does achieve: once a call has opened its stream, and
  whatever events \<open>ds\<close> that stream has dispatched since, a call of \<open>sendMessage\<close> that
  enters with a query returns at the guard: it is answered \<open>Busy\<close>, its only effect is
  the warning, and the events \<open>ds'\<close> that the stream dispatches afterwards leave the
  same transcript, sources and page calls as without it.
\<close>

lemma sendMessage_busy_while_open:
  assumes "dispatch ds (new_answer, snd (sendMessage_open q1 c0)) = (a, c)"
    and "q2 \<noteq> []"
  shows "sendMessage (Some q2) c
           = (Busy, c\<lparr>chat_notifications := chat_notifications c @ [PleaseWait]\<rparr>)
   \<and> dispatch ds' (a, snd (sendMessage (Some q2) c))
       = (fst (dispatch ds' (a, c)),
          (snd (dispatch ds' (a, c)))\<lparr>chat_notifications := chat_notifications c @ [PleaseWait]\<rparr>)"
proof -
  have "isStreaming (snd (sendMessage_open q1 c0))"
    by (simp add: sendMessage_open_def call_ui_def)
  then have "isStreaming c"
    using dispatch_keeps[of ds new_answer "snd (sendMessage_open q1 c0)"] assms(1) by simp
  then have busy: "sendMessage (Some q2) c
           = (Busy, c\<lparr>chat_notifications := chat_notifications c @ [PleaseWait]\<rparr>)"
    using assms(2) by (simp add: sendMessage_def)
  show ?thesis
    unfolding busy
    using dispatch_frame[where ds = ds' and a = a and c = c
        and n = "chat_notifications c @ [PleaseWait]"] by simp
qed

text \<open>
  The call that has passed the guard and waits for \<open>createNewSession\<close> is not held back
  by the flag when it goes on: with a session it opens its stream, whatever
  \<open>isStreaming\<close> says.
\<close>

lemma sendMessage_resume_ignores_flag:
  "\<not> no_session c \<Longrightarrow> sendMessage_resume q c = sendMessage_open q c"
  by (simp add: sendMessage_resume_def)

text \<open>
  C7: the claim is that while one stream of a session is Streaming any attempt to start a
  second one is rejected as busy. The code admits one in the following run. The page has
  no session; two calls of \<open>sendMessage\<close>, with the queries \<open>a\<close> and \<open>b\<close>, enter one
  after the other, pass the guard and wait for \<open>createNewSession\<close>. The session of the
  first is created (id 1), the first call goes on and opens its stream, which dispatches
  \<open>start\<close>: the stream is Streaming on session 1. The \<open>createSession\<close> call of the
  second fails; the second call goes on, finds session 1 and opens a second stream on it:
  the result is \<open>Streaming\<close>, not \<open>Busy\<close>. When that second stream ends, its
  \<open>finally\<close> block clears the flag, and a third call, with the query \<open>c\<close>, entering
  while the first stream is still open, is admitted as well.
\<close>

theorem C7_second_stream_admitted:
  "sendMessage (Some (ascii ''a'')) ChatManager_new = (AwaitingSession (ascii ''a''), ChatManager_new)
   \<and> sendMessage (Some (ascii ''b'')) ChatManager_new
       = (AwaitingSession (ascii ''b''), ChatManager_new)
   \<and> createNewSession (Inr \<lparr>success = True, reply_message = [], session_id = 1\<rparr>)
        ChatManager_new
       = \<lparr>isStreaming = False, currentSessionId = Some 1,
          ui = [UpdateChatStatus LoadingHistory], chat_notifications = [SessionCreated]\<rparr>
   \<and> sendMessage_resume (ascii ''a'')
        \<lparr>isStreaming = False, currentSessionId = Some 1,
         ui = [UpdateChatStatus LoadingHistory], chat_notifications = [SessionCreated]\<rparr>
       = (Streaming (ascii ''a''),
          \<lparr>isStreaming = True, currentSessionId = Some 1,
           ui = [UpdateChatStatus LoadingHistory, ClearInput, AddUserMessage (ascii ''a''),
                 ShowTypingIndicator, UpdateChatStatus Thinking],
           chat_notifications = [SessionCreated]\<rparr>)
   \<and> dispatch [obj [(''type'', ''start'')]]
        (new_answer,
         \<lparr>isStreaming = True, currentSessionId = Some 1,
          ui = [UpdateChatStatus LoadingHistory, ClearInput, AddUserMessage (ascii ''a''),
                ShowTypingIndicator, UpdateChatStatus Thinking],
          chat_notifications = [SessionCreated]\<rparr>)
       = (new_answer,
          \<lparr>isStreaming = True, currentSessionId = Some 1,
           ui = [UpdateChatStatus LoadingHistory, ClearInput, AddUserMessage (ascii ''a''),
                 ShowTypingIndicator, UpdateChatStatus Thinking, UpdateChatStatus Retrieving],
           chat_notifications = [SessionCreated]\<rparr>)
   \<and> createNewSession (Inl (Error (ascii ''HTTP 400: Bad Request'')))
        \<lparr>isStreaming = True, currentSessionId = Some 1,
         ui = [UpdateChatStatus LoadingHistory, ClearInput, AddUserMessage (ascii ''a''),
               ShowTypingIndicator, UpdateChatStatus Thinking, UpdateChatStatus Retrieving],
         chat_notifications = [SessionCreated]\<rparr>
       = \<lparr>isStreaming = True, currentSessionId = Some 1,
          ui = [UpdateChatStatus LoadingHistory, ClearInput, AddUserMessage (ascii ''a''),
                ShowTypingIndicator, UpdateChatStatus Thinking, UpdateChatStatus Retrieving],
          chat_notifications =
            [SessionCreated, SessionCreateFailed (ascii ''HTTP 400: Bad Request'')]\<rparr>
   \<and> sendMessage_resume (ascii ''b'')
        \<lparr>isStreaming = True, currentSessionId = Some 1,
         ui = [UpdateChatStatus LoadingHistory, ClearInput, AddUserMessage (ascii ''a''),
               ShowTypingIndicator, UpdateChatStatus Thinking, UpdateChatStatus Retrieving],
         chat_notifications =
           [SessionCreated, SessionCreateFailed (ascii ''HTTP 400: Bad Request'')]\<rparr>
       = (Streaming (ascii ''b''),
          \<lparr>isStreaming = True, currentSessionId = Some 1,
           ui = [UpdateChatStatus LoadingHistory, ClearInput, AddUserMessage (ascii ''a''),
                 ShowTypingIndicator, UpdateChatStatus Thinking, UpdateChatStatus Retrieving,
                 ClearInput, AddUserMessage (ascii ''b''), ShowTypingIndicator,
                 UpdateChatStatus Thinking],
           chat_notifications =
             [SessionCreated, SessionCreateFailed (ascii ''HTTP 400: Bad Request'')]\<rparr>)
   \<and> sendMessage (Some (ascii ''c''))
        (sendMessage_settle None
           \<lparr>isStreaming = True, currentSessionId = Some 1,
            ui = [UpdateChatStatus LoadingHistory, ClearInput, AddUserMessage (ascii ''a''),
                  ShowTypingIndicator, UpdateChatStatus Thinking, UpdateChatStatus Retrieving,
                  ClearInput, AddUserMessage (ascii ''b''), ShowTypingIndicator,
                  UpdateChatStatus Thinking],
            chat_notifications =
              [SessionCreated, SessionCreateFailed (ascii ''HTTP 400: Bad Request'')]\<rparr>)
       = (Streaming (ascii ''c''),
          \<lparr>isStreaming = True, currentSessionId = Some 1,
           ui = [UpdateChatStatus LoadingHistory, ClearInput, AddUserMessage (ascii ''a''),
                 ShowTypingIndicator, UpdateChatStatus Thinking, UpdateChatStatus Retrieving,
                 ClearInput, AddUserMessage (ascii ''b''), ShowTypingIndicator,
                 UpdateChatStatus Thinking,
                 ClearInput, AddUserMessage (ascii ''c''), ShowTypingIndicator,
                 UpdateChatStatus Thinking],
           chat_notifications =
             [SessionCreated, SessionCreateFailed (ascii ''HTTP 400: Bad Request'')]\<rparr>)"
  by (simp add: sendMessage_def sendMessage_resume_def sendMessage_open_def sendMessage_settle_def
        createNewSession_def switchSession_def ChatManager_new_def no_session_def call_ui_def
        onMessage_def field_def obj_def new_answer_def Error_def ascii_def)

section \<open>Properties of the job poller\<close>

lemma status_names:
  "ascii ''processing'' \<noteq> ascii ''completed''" "ascii ''processing'' \<noteq> ascii ''failed''"
  "ascii ''completed'' \<noteq> ascii ''failed''"
  by (simp_all add: ascii_def)


lemma checkStatus_processing:
  "checkStatus (replicate n (status_is (ascii ''processing'')) @ rs) m =
   checkStatus rs
     (m\<lparr>checks := checks m + n, timers := timers m @ replicate n 3000,
        pending := (if n = 0 then pending m else True)\<rparr>)"
proof (induction n arbitrary: m)
  case 0
  show ?case by simp
next
  case (Suc n)
  have "checkStatus (replicate (Suc n) (status_is (ascii ''processing'')) @ rs) m
      = checkStatus (replicate n (status_is (ascii ''processing'')) @ rs)
          (m\<lparr>checks := Suc (checks m), timers := timers m @ [3000], pending := True\<rparr>)"
    by (simp add: status_is_def status_names Let_def)
  also have "\<dots> = checkStatus rs
     (m\<lparr>checks := checks m + Suc n, timers := timers m @ replicate (Suc n) 3000,
        pending := True\<rparr>)"
    by (simp add: Suc replicate_append_same)
  finally show ?case by simp
qed

text \<open>
  C10: when, after any number \<open>n\<close> of \<open>processing\<close> replies, a successful reply
  carries a \<open>process_status\<close> that is none of \<open>completed\<close>, \<open>failed\<close>,
  \<open>processing\<close>, the poller stops there: \<open>n + 1\<close> checks, no timer outstanding, no
  notification, no refresh, whatever replies would follow.
\<close>

theorem C10_other_status_stops_silently:
  assumes "s \<noteq> ascii ''completed''" and "s \<noteq> ascii ''failed''" and "s \<noteq> ascii ''processing''"
  shows "monitorFileProcessing
     (replicate n (status_is (ascii ''processing'')) @ status_is s # rest)
    = \<lparr>checks = Suc n, timers = 2000 # replicate n 3000, pending = False,
       notified = [], refreshes = 0\<rparr>"
  using assms
  by (simp add: monitorFileProcessing_def checkStatus_processing)
     (simp add: status_is_def)

theorem C10_other_status_stops_silently_witness:
  "ascii ''pending'' \<noteq> ascii ''completed'' \<and> ascii ''pending'' \<noteq> ascii ''failed''
   \<and> ascii ''pending'' \<noteq> ascii ''processing''
   \<and> monitorFileProcessing
        [status_is (ascii ''processing''), status_is (ascii ''pending''),
         status_is (ascii ''completed'')]
      = \<lparr>checks = 2, timers = [2000, 3000], pending = False, notified = [], refreshes = 0\<rparr>"
proof -
  have ne: "ascii ''pending'' \<noteq> ascii ''completed''" "ascii ''pending'' \<noteq> ascii ''failed''"
    "ascii ''pending'' \<noteq> ascii ''processing''"
    by (simp_all add: ascii_def)
  show ?thesis
    using C10_other_status_stops_silently
            [OF ne, of 1 "[status_is (ascii ''completed'')]"] ne
    by simp
qed

section \<open>Properties of the mutating operations\<close>

text \<open>
  C6, as the claim states it, fails: with the list \<open>[7]\<close> cached under a key, a
  successful delete of file 7 leaves the entry in place, and a \<open>get\<close> one millisecond
  later returns the list that still contains 7.
\<close>

theorem C6_stale_list_counterexample:
  "CacheManager_get 1 (ascii ''files'')
     (cache (performDeleteFile 7 (Inr \<lparr>success = True, reply_message = []\<rparr>)
        \<lparr>selectedFiles = {7}, file_notifications = [], list_loads = 0, monitored = [],
         cache = CacheManager_set 0 (ascii ''files'') [7::nat] defaultTTL Map.empty\<rparr>))
   = (Some [7], CacheManager_set 0 (ascii ''files'') [7] defaultTTL Map.empty)"
  by (simp add: performDeleteFile_def refreshFileList_def notify_def CacheManager_get_def
        CacheManager_set_def defaultTTL_def)

text \<open>
  C6, amended: the mutating operations (delete, batch-delete, rename, upload) neither
  read nor write the cache and invalidate nothing: each leaves the cache map as it was, so
  a \<open>get\<close> after the mutation returns what it would have returned before it. What a
  successful mutation does is fetch the file list again from the network
  (\<open>refreshFileList\<close>, one more \<open>loadFileList\<close>).
\<close>

theorem C6_mutations_leave_cache:
  "cache (performDeleteFile fileId r1 fm) = cache fm
   \<and> cache (performBatchDelete r2 fm) = cache fm
   \<and> cache (performRename fileId newName r3 fm) = cache fm
   \<and> cache (uploadFile r4 fm) = cache fm
   \<and> CacheManager_get now k (cache (performDeleteFile fileId r1 fm)) = CacheManager_get now k (cache fm)
   \<and> list_loads (performDeleteFile fileId (Inr response) fm)
        = (if success response then Suc (list_loads fm) else list_loads fm)
   \<and> list_loads (performRename fileId newName (Inr response) fm)
        = (if success response then Suc (list_loads fm) else list_loads fm)
   \<and> list_loads (uploadFile (Inr response4) fm)
        = (if success response4 then Suc (list_loads fm) else list_loads fm)
   \<and> list_loads (performBatchDelete (Inr response2) fm)
        = (if success response2 \<and> {fileId \<in> selectedFiles fm. fileId > 0} \<noteq> {}
           then Suc (list_loads fm) else list_loads fm)"
  by (simp add: performDeleteFile_def performBatchDelete_def performRename_def uploadFile_def
        refreshFileList_def notify_def split: sum.splits)

section \<open>Properties of RequestInterceptor\<close>

lemma joinOrStart_first:
  assumes "cancelDuplicate k w = None"
  shows "joinOrStart k c1 w =
     w\<lparr>requestQueue := (requestQueue w)(k \<mapsto> length (promises w)),
       promises := promises w @ [\<lparr>settlement = Pending,
                                  reactions = [DeleteFromQueue k, Resume c1 k]\<rparr>],
       network_calls := Suc (network_calls w)\<rparr>"
  using assms
  by (simp add: joinOrStart_def start_request_def addRequest_def react_def)

lemma joinOrStart_second:
  assumes "cancelDuplicate k w = None"
  shows "joinOrStart k c2 (joinOrStart k c1 w) =
     w\<lparr>requestQueue := (requestQueue w)(k \<mapsto> length (promises w)),
       promises := promises w @ [\<lparr>settlement = Pending,
                                  reactions = [DeleteFromQueue k, Resume c1 k, Resume c2 k]\<rparr>],
       network_calls := Suc (network_calls w)\<rparr>"
  unfolding joinOrStart_first[OF assms]
  by (simp add: joinOrStart_def cancelDuplicate_def react_def)

lemma settle_two_callers:
  assumes "cancelDuplicate k w = None"
  shows "settle (length (promises w)) res (joinOrStart k c2 (joinOrStart k c1 w)) =
     w\<lparr>requestQueue := (requestQueue w)(k := None),
       promises := promises w @ [\<lparr>settlement = Settled res, reactions = []\<rparr>],
       network_calls := Suc (network_calls w),
       resumed := resumed w @ [(c1, res, None), (c2, res, None)]\<rparr>"
  unfolding joinOrStart_second[OF assms]
  by (simp add: settle_def run_reaction_def)




end
